theory Spec2Isabelle
  imports Complex_Main "HOL-Library.Word"
begin

section \<open>JavaScript values\<close>

text \<open>
  The module \<^verbatim>\<open>user-control.js\<close> keeps a collection of user records in the file
  \<^verbatim>\<open>usuarios.json\<close>. Its three functions, \<^verbatim>\<open>comLock\<close>, \<^verbatim>\<open>lerUsuarios\<close> and
  \<^verbatim>\<open>salvarUsuarios\<close>, are embedded below as state transformers over a world that holds
  the file and a trace of the calls made to the platform (lock library, file system,
  console).

  A JavaScript string is a sequence of UTF-16 code units; \<open>length\<close>, \<open>slice\<close> and
  \<open>trim\<close> count and cut code units.
\<close>

type_synonym js_string = "16 word list"

definition ascii :: "string \<Rightarrow> js_string" where
  "ascii s = map of_char s"

text \<open>
  A number is an IEEE double: not-a-number, an infinity, or a finite value, kept here as
  the rational it denotes (the two zeros are one value; they compare equal and print
  alike).
\<close>

datatype number = NaN | PosInfinity | NegInfinity | Finite rat

text \<open>
  The values \<^verbatim>\<open>JSON.parse\<close> returns and \<^verbatim>\<open>JSON.stringify\<close> prints in full. The members
  of an object are kept in insertion order, each key once. A value holding \<^verbatim>\<open>undefined\<close>, a
  function or a cycle is not of this type.
\<close>

datatype json =
    JNull
  | JBool bool
  | JNum number
  | JStr js_string
  | JArr "json list"
  | JObj "(js_string \<times> json) list"

text \<open>The result of reading a property: \<^verbatim>\<open>undefined\<close> when the value has none.\<close>

datatype property = Undefined | Value json

text \<open>
  What a rejected promise or a \<^verbatim>\<open>throw\<close> carries: the two built-in errors the module can
  meet, and the system errors of the file system and of the lock library, by their code
  (\<^verbatim>\<open>ENOENT\<close>, \<^verbatim>\<open>EACCES\<close>, \<^verbatim>\<open>ELOCKED\<close>, ...).
\<close>

datatype js_error = SyntaxError | TypeError | SystemError string

definition bindE :: "js_error + 'a \<Rightarrow> ('a \<Rightarrow> js_error + 'b) \<Rightarrow> js_error + 'b" where
  "bindE r f = (case r of Inl err \<Rightarrow> Inl err | Inr x \<Rightarrow> f x)"

subsection \<open>The platform\<close>

text \<open>
  Built-in functions the module calls and whose text is not part of the repository are
  parameters of the model:
  \<^item> \<open>JSON_parse\<close>: \<^verbatim>\<open>JSON.parse(text)\<close>, the parsed value or the error thrown;
  \<^item> \<open>QuoteJSONString\<close>: the quoted, escaped form \<^verbatim>\<open>JSON.stringify\<close> prints for a string;
  \<^item> \<open>NumberToString\<close>: the decimal form of a finite number;
  \<^item> \<open>ToNumber_of\<close>: the numeric coercion of a string, an array or an object, which a
    relational operator applies to its operand (it may throw \<^verbatim>\<open>TypeError\<close>).
\<close>

record platform =
  JSON_parse :: "js_string \<Rightarrow> js_error + json"
  QuoteJSONString :: "js_string \<Rightarrow> js_string"
  NumberToString :: "rat \<Rightarrow> js_string"
  ToNumber_of :: "json \<Rightarrow> js_error + number"

subsection \<open>\<^verbatim>\<open>String.prototype.trim\<close>\<close>

text \<open>
  The code units \<^verbatim>\<open>trim\<close> strips: the WhiteSpace and LineTerminator productions of
  ECMAScript (tab, line feed, vertical tab, form feed, carriage return, space, no-break
  space, the Unicode space separators, line and paragraph separator, byte order mark).
\<close>

definition white_space :: "16 word list" where
  "white_space =
     [0x0009, 0x000A, 0x000B, 0x000C, 0x000D, 0x0020, 0x00A0, 0x1680,
      0x2000, 0x2001, 0x2002, 0x2003, 0x2004, 0x2005, 0x2006, 0x2007,
      0x2008, 0x2009, 0x200A, 0x2028, 0x2029, 0x202F, 0x205F, 0x3000, 0xFEFF]"

definition is_white_space :: "16 word \<Rightarrow> bool" where
  "is_white_space c = (c \<in> set white_space)"

definition trim :: "js_string \<Rightarrow> js_string" where
  "trim s = rev (dropWhile is_white_space (rev (dropWhile is_white_space s)))"

subsection \<open>Relational operators\<close>

text \<open>
  \<open>IsLessThan x y\<close> is ECMAScript's comparison of two numbers: \<open>None\<close> (undefined) when
  either is not-a-number. \<^verbatim>\<open>a <= b\<close> holds when \<open>IsLessThan b a\<close> is false, \<^verbatim>\<open>a > b\<close> when
  it is true; both are false on undefined.
\<close>

fun IsLessThan :: "number \<Rightarrow> number \<Rightarrow> bool option" where
  "IsLessThan NaN y = None"
| "IsLessThan x NaN = None"
| "IsLessThan PosInfinity y = Some False"
| "IsLessThan x PosInfinity = Some True"
| "IsLessThan x NegInfinity = Some False"
| "IsLessThan NegInfinity y = Some True"
| "IsLessThan (Finite a) (Finite b) = Some (a < b)"

definition js_le :: "number \<Rightarrow> number \<Rightarrow> bool" where
  "js_le a b = (IsLessThan b a = Some False)"

definition js_gt :: "number \<Rightarrow> number \<Rightarrow> bool" where
  "js_gt a b = (IsLessThan b a = Some True)"

text \<open>\<open>ToNumber\<close> of the value a property read gave.\<close>

fun ToNumber :: "platform \<Rightarrow> property \<Rightarrow> js_error + number" where
  "ToNumber P Undefined = Inr NaN"
| "ToNumber P (Value JNull) = Inr (Finite 0)"
| "ToNumber P (Value (JBool b)) = Inr (Finite (if b then 1 else 0))"
| "ToNumber P (Value (JNum n)) = Inr n"
| "ToNumber P (Value v) = ToNumber_of P v"

subsection \<open>\<^verbatim>\<open>arr.length\<close> and \<^verbatim>\<open>arr.slice(0, num)\<close> on a parsed value\<close>

text \<open>
  Reading \<^verbatim>\<open>length\<close> throws on \<^verbatim>\<open>null\<close>; a boolean and a number have none; a string and an
  array have their length; an object has the member of that name, if any.
\<close>

definition length_key :: js_string where
  "length_key = ascii ''length''"

fun get_length :: "json \<Rightarrow> js_error + property" where
  "get_length JNull = Inl TypeError"
| "get_length (JBool b) = Inr Undefined"
| "get_length (JNum n) = Inr Undefined"
| "get_length (JStr s) = Inr (Value (JNum (Finite (of_nat (length s)))))"
| "get_length (JArr xs) = Inr (Value (JNum (Finite (of_nat (length xs)))))"
| "get_length (JObj ms) =
     Inr (case map_of ms length_key of None \<Rightarrow> Undefined | Some v \<Rightarrow> Value v)"

text \<open>
  \<^verbatim>\<open>slice(0, end)\<close> of an array or a string: a negative \<open>end\<close> counts from the end, and
  the result is clamped to the length. No other parsed value has a callable \<^verbatim>\<open>slice\<close>,
  so the call throws.
\<close>

definition slice_end :: "nat \<Rightarrow> int \<Rightarrow> nat" where
  "slice_end len e = nat (if e < 0 then max (int len + e) 0 else min e (int len))"

fun slice0 :: "json \<Rightarrow> int \<Rightarrow> js_error + json" where
  "slice0 (JArr xs) e = Inr (JArr (take (slice_end (length xs) e) xs))"
| "slice0 (JStr s) e = Inr (JStr (take (slice_end (length s) e) s))"
| "slice0 v e = Inl TypeError"

subsection \<open>\<^verbatim>\<open>JSON.stringify(value, null, space)\<close>\<close>

text \<open>
  The serialisation of a parsed value with a numeric \<open>space\<close>: the gap is that many
  spaces (ten at most). With an empty gap the elements are separated by a comma; otherwise
  each element stands on a line of its own, indented one gap more than its container, and
  a member's key is followed by a colon and a space. An empty array is \<^verbatim>\<open>[]\<close> and an
  empty object \<^verbatim>\<open>{}\<close>; a number that is not finite prints as \<^verbatim>\<open>null\<close>.
\<close>

fun join :: "js_string \<Rightarrow> js_string list \<Rightarrow> js_string" where
  "join sep [] = []"
| "join sep [x] = x"
| "join sep (x # y # ys) = x @ sep @ join sep (y # ys)"

definition bracket :: "string \<Rightarrow> string \<Rightarrow> js_string \<Rightarrow> js_string \<Rightarrow> js_string list \<Rightarrow> js_string" where
  "bracket l r g ind parts =
     (if parts = [] then ascii l @ ascii r
      else if g = [] then ascii l @ join (ascii '','') parts @ ascii r
      else ascii l @ [0x0A] @ (ind @ g) @ join (ascii '','' @ [0x0A] @ (ind @ g)) parts
           @ [0x0A] @ ind @ ascii r)"

fun serialize :: "platform \<Rightarrow> js_string \<Rightarrow> js_string \<Rightarrow> json \<Rightarrow> js_string"
  and serialize_elements :: "platform \<Rightarrow> js_string \<Rightarrow> js_string \<Rightarrow> json list \<Rightarrow> js_string list"
  and serialize_members ::
    "platform \<Rightarrow> js_string \<Rightarrow> js_string \<Rightarrow> (js_string \<times> json) list \<Rightarrow> js_string list"
where
  "serialize P g ind JNull = ascii ''null''"
| "serialize P g ind (JBool b) = (if b then ascii ''true'' else ascii ''false'')"
| "serialize P g ind (JNum n) =
     (case n of Finite r \<Rightarrow> NumberToString P r | _ \<Rightarrow> ascii ''null'')"
| "serialize P g ind (JStr s) = QuoteJSONString P s"
| "serialize P g ind (JArr xs) =
     bracket ''['' '']'' g ind (serialize_elements P g (ind @ g) xs)"
| "serialize P g ind (JObj ms) =
     bracket ''{'' ''}'' g ind (serialize_members P g (ind @ g) ms)"
| "serialize_elements P g ind [] = []"
| "serialize_elements P g ind (x # xs) =
     serialize P g ind x # serialize_elements P g ind xs"
| "serialize_members P g ind [] = []"
| "serialize_members P g ind ((k, v) # ms) =
     (QuoteJSONString P k @ ascii '':'' @ (if g = [] then [] else ascii '' '')
        @ serialize P g ind v)
     # serialize_members P g ind ms"

definition JSON_stringify :: "platform \<Rightarrow> json \<Rightarrow> nat \<Rightarrow> js_string" where
  "JSON_stringify P v space = serialize P (replicate (min 10 space) 0x20) [] v"

section \<open>The world: the file, and the calls made to the platform\<close>

text \<open>
  The options the module passes to \<^verbatim>\<open>lockfile.lock\<close>, as written in \<^verbatim>\<open>comLock\<close>.
\<close>

record lock_options =
  retries :: nat
  factor :: nat
  minTimeout :: nat
  maxTimeout :: nat
  stale :: nat

definition lock_options :: lock_options where
  "lock_options =
     \<lparr>retries = 5, factor = 2, minTimeout = 50, maxTimeout = 1000, stale = 5000\<rparr>"

text \<open>The messages the module prints, one constructor for each call of the console.\<close>

datatype message =
    ErroAoLiberarLock js_error
  | Lendo
  | EstaVazio
  | NenhumLimite
  | NumeroInvalido
  | Lidos property
  | ErroAoLer js_error
  | AtualizadoComSucesso
  | ErroAoSalvar js_error

datatype level = Log | Warn | Error

datatype event =
    LockfileLock lock_options
  | Release
  | ReadFile
  | WriteFile js_string
  | Console level message

text \<open>
  The world holds the text of \<^verbatim>\<open>usuarios.json\<close> (\<open>None\<close> when the file does not exist) and
  the calls made so far, oldest first.
\<close>

record world =
  usuarios_json :: "js_string option"
  trace :: "event list"

definition emit :: "event \<Rightarrow> world \<Rightarrow> world" where
  "emit e w = w\<lparr>trace := trace w @ [e]\<rparr>"

text \<open>The calls made between an earlier world and a later one.\<close>

definition emitted :: "world \<Rightarrow> world \<Rightarrow> event list" where
  "emitted w w' = drop (length (trace w)) (trace w')"

text \<open>
  What the platform does during one call of the module is given by an outcome: whether
  \<^verbatim>\<open>lockfile.lock\<close> rejects (after its retries) and with what, whether \<^verbatim>\<open>release\<close> rejects,
  whether \<^verbatim>\<open>fs.readFile\<close> rejects, and whether \<^verbatim>\<open>fs.writeFile\<close> rejects and what it
  leaves in the file when it does.
\<close>

record outcome =
  lock_rejects :: "js_error option"
  release_rejects :: "js_error option"
  readFile_rejects :: "js_error option"
  writeFile_rejects :: "(js_error \<times> js_string option) option"

definition readFile :: "outcome \<Rightarrow> world \<Rightarrow> (js_error + js_string) \<times> world" where
  "readFile oc w =
     (let w1 = emit ReadFile w in
      case readFile_rejects oc of
        Some err \<Rightarrow> (Inl err, w1)
      | None \<Rightarrow>
         (case usuarios_json w1 of
            None \<Rightarrow> (Inl (SystemError ''ENOENT''), w1)
          | Some dados \<Rightarrow> (Inr dados, w1)))"

definition writeFile :: "outcome \<Rightarrow> js_string \<Rightarrow> world \<Rightarrow> (js_error + unit) \<times> world" where
  "writeFile oc json w =
     (let w1 = emit (WriteFile json) w in
      case writeFile_rejects oc of
        Some (err, left) \<Rightarrow> (Inl err, w1\<lparr>usuarios_json := left\<rparr>)
      | None \<Rightarrow> (Inr (), w1\<lparr>usuarios_json := Some json\<rparr>))"

section \<open>The module\<close>

text \<open>
  Each function of the module is \<^verbatim>\<open>async\<close>. It is embedded as one step from a world to a
  result and a world: \<open>Inl\<close> of the error when the promise rejects, \<open>Inr\<close> of the value when
  it resolves. Calls run one at a time, each to its end.
\<close>

subsection \<open>\<^verbatim>\<open>comLock\<close>\<close>

text \<open>
  \<^verbatim>\<open>comLock(fn)\<close> awaits the lock inside \<^verbatim>\<open>try\<close>; when the lock rejects, \<open>release\<close> is
  still unset, the \<^verbatim>\<open>finally\<close> block does nothing and the rejection reaches the caller.
  Otherwise \<open>fn\<close> runs, and the \<^verbatim>\<open>finally\<close> block calls \<open>release\<close>, printing the error of
  a release that rejects; the result, or the error, of \<open>fn\<close> is what the caller gets.
\<close>

definition comLock ::
  "outcome \<Rightarrow> (world \<Rightarrow> (js_error + 'a) \<times> world) \<Rightarrow> world \<Rightarrow> (js_error + 'a) \<times> world" where
  "comLock oc fn w =
     (let w1 = emit (LockfileLock lock_options) w in
      case lock_rejects oc of
        Some err \<Rightarrow> (Inl err, w1)
      | None \<Rightarrow>
         (let (r, w2) = fn w1;
              w3 = emit Release w2;
              w4 = (case release_rejects oc of
                      Some err \<Rightarrow> emit (Console Error (ErroAoLiberarLock err)) w3
                    | None \<Rightarrow> w3)
          in (r, w4)))"

subsection \<open>\<^verbatim>\<open>lerUsuarios\<close>\<close>

text \<open>
  The two tests on the length. In \<^verbatim>\<open>num > 0 && num <= arr.length\<close> the length is read
  only when \<open>num\<close> is positive; \<^verbatim>\<open>num > arr.length\<close> always reads it.
\<close>

definition num_le_length :: "platform \<Rightarrow> int \<Rightarrow> json \<Rightarrow> js_error + bool" where
  "num_le_length P num arr =
     (if num > 0
      then bindE (get_length arr) (\<lambda>len.
           bindE (ToNumber P len) (\<lambda>n. Inr (js_le (Finite (of_int num)) n)))
      else Inr False)"

definition num_gt_length :: "platform \<Rightarrow> int \<Rightarrow> json \<Rightarrow> js_error + bool" where
  "num_gt_length P num arr =
     bindE (get_length arr) (\<lambda>len.
     bindE (ToNumber P len) (\<lambda>n. Inr (js_gt (Finite (of_int num)) n)))"

text \<open>
  The last two statements of the \<^verbatim>\<open>try\<close> block: print the length of the selection and
  return it.
\<close>

definition lidos :: "json \<Rightarrow> world \<Rightarrow> (js_error + json) \<times> world" where
  "lidos arr_limited w =
     (case get_length arr_limited of
        Inl err \<Rightarrow> (Inl err, w)
      | Inr len \<Rightarrow> (Inr arr_limited, emit (Console Log (Lidos len)) w))"

text \<open>The selection by \<open>num\<close>, in the order of the source's \<^verbatim>\<open>if\<close> chain.\<close>

definition limitar :: "platform \<Rightarrow> int \<Rightarrow> json \<Rightarrow> world \<Rightarrow> (js_error + json) \<times> world" where
  "limitar P num arr w =
     (case num_le_length P num arr of
        Inl err \<Rightarrow> (Inl err, w)
      | Inr True \<Rightarrow>
         (case slice0 arr num of
            Inl err \<Rightarrow> (Inl err, w)
          | Inr arr_limited \<Rightarrow> lidos arr_limited w)
      | Inr False \<Rightarrow>
         (case num_gt_length P num arr of
            Inl err \<Rightarrow> (Inl err, w)
          | Inr True \<Rightarrow> lidos arr w
          | Inr False \<Rightarrow>
             if num = 0 then lidos arr (emit (Console Log NenhumLimite) w)
             else (Inr (JArr []), emit (Console Warn NumeroInvalido) w)))"

text \<open>The \<^verbatim>\<open>try\<close> block of the function passed to \<open>comLock\<close>.\<close>

definition ler_try :: "platform \<Rightarrow> outcome \<Rightarrow> int \<Rightarrow> world \<Rightarrow> (js_error + json) \<times> world" where
  "ler_try P oc num w =
     (case readFile oc w of
        (Inl err, w1) \<Rightarrow> (Inl err, w1)
      | (Inr dados, w1) \<Rightarrow>
         (let w2 = emit (Console Log Lendo) w1;
              texto = trim dados
          in if texto = [] then (Inr (JArr []), emit (Console Warn EstaVazio) w2)
             else (case JSON_parse P texto of
                     Inl err \<Rightarrow> (Inl err, w2)
                   | Inr arr \<Rightarrow> limitar P num arr w2)))"

text \<open>The function passed to \<open>comLock\<close>: the \<^verbatim>\<open>try\<close> block and its \<^verbatim>\<open>catch\<close>.\<close>

definition ler_fn :: "platform \<Rightarrow> outcome \<Rightarrow> int \<Rightarrow> world \<Rightarrow> (js_error + json) \<times> world" where
  "ler_fn P oc num w =
     (case ler_try P oc num w of
        (Inl err, w1) \<Rightarrow> (Inr (JArr []), emit (Console Error (ErroAoLer err)) w1)
      | (Inr arr_limited, w1) \<Rightarrow> (Inr arr_limited, w1))"

definition lerUsuarios :: "platform \<Rightarrow> outcome \<Rightarrow> int \<Rightarrow> world \<Rightarrow> (js_error + json) \<times> world" where
  "lerUsuarios P oc num w = comLock oc (ler_fn P oc num) w"

subsection \<open>\<^verbatim>\<open>salvarUsuarios\<close>\<close>

text \<open>
  The \<^verbatim>\<open>try\<close> block, its \<^verbatim>\<open>catch\<close>, and the call of \<open>comLock\<close>. The function returns
  nothing (\<^verbatim>\<open>undefined\<close>, the unit value here). On a value of type \<open>json\<close> the serialisation
  is a string and does not throw, so only \<^verbatim>\<open>fs.writeFile\<close> can reach the \<^verbatim>\<open>catch\<close>.
\<close>

definition salvar_try :: "platform \<Rightarrow> outcome \<Rightarrow> json \<Rightarrow> world \<Rightarrow> (js_error + unit) \<times> world" where
  "salvar_try P oc usuarios w =
     (let json = JSON_stringify P usuarios 2 in
      case writeFile oc json w of
        (Inl err, w1) \<Rightarrow> (Inl err, w1)
      | (Inr u, w1) \<Rightarrow> (Inr (), emit (Console Log AtualizadoComSucesso) w1))"

definition salvar_fn :: "platform \<Rightarrow> outcome \<Rightarrow> json \<Rightarrow> world \<Rightarrow> (js_error + unit) \<times> world" where
  "salvar_fn P oc usuarios w =
     (case salvar_try P oc usuarios w of
        (Inl err, w1) \<Rightarrow> (Inr (), emit (Console Error (ErroAoSalvar err)) w1)
      | (Inr u, w1) \<Rightarrow> (Inr (), w1))"

definition salvarUsuarios ::
  "platform \<Rightarrow> outcome \<Rightarrow> json \<Rightarrow> world \<Rightarrow> (js_error + unit) \<times> world" where
  "salvarUsuarios P oc usuarios w = comLock oc (salvar_fn P oc usuarios) w"

section \<open>Example platform, outcomes and worlds\<close>

text \<open>
  The collection of the examples: three records, each with the member \<^verbatim>\<open>id\<close> only, and
  the text \<^verbatim>\<open>JSON.stringify(colecao_abc, null, 2)\<close> prints for it.
\<close>

definition usuario :: "string \<Rightarrow> json" where
  "usuario i = JObj [(ascii ''id'', JStr (ascii i))]"

definition colecao_abc :: json where
  "colecao_abc = JArr [usuario ''a'', usuario ''b'', usuario ''c'']"

definition texto_abc :: js_string where
  \<open>texto_abc = join [0x0A] (map ascii
     [''['',
      ''  {'',
      ''    "id": "a"'',
      ''  },'',
      ''  {'',
      ''    "id": "b"'',
      ''  },'',
      ''  {'',
      ''    "id": "c"'',
      ''  }'',
      '']''])\<close>

text \<open>
  The platform of the examples. Its parser knows the texts the examples read and throws on
  every other text; a string is quoted as it is (right for a string that needs no
  escape). No example prints a number or coerces a string, an array or an object to one.
\<close>

definition example_parse :: "js_string \<Rightarrow> js_error + json" where
  "example_parse t =
     (if t = texto_abc then Inr colecao_abc
      else if t = ascii ''null'' then Inr JNull
      else if t = ascii ''{}'' then Inr (JObj [])
      else Inl SyntaxError)"

definition example_platform :: platform where
  "example_platform =
     \<lparr>JSON_parse = example_parse,
      QuoteJSONString = (\<lambda>s. [0x22] @ s @ [0x22]),
      NumberToString = (\<lambda>r. ascii ''0''),
      ToNumber_of = (\<lambda>v. Inr NaN)\<rparr>"

text \<open>Outcomes: every call succeeds, or exactly one of them rejects.\<close>

definition all_succeed :: outcome where
  "all_succeed =
     \<lparr>lock_rejects = None, release_rejects = None, readFile_rejects = None,
      writeFile_rejects = None\<rparr>"

definition lock_busy :: outcome where
  "lock_busy = all_succeed\<lparr>lock_rejects := Some (SystemError ''ELOCKED'')\<rparr>"

definition release_fails :: outcome where
  "release_fails = all_succeed\<lparr>release_rejects := Some (SystemError ''ERELEASED'')\<rparr>"


text \<open>A write that is refused and leaves the file as the given text.\<close>

definition write_denied :: "js_string \<Rightarrow> outcome" where
  "write_denied left =
     all_succeed\<lparr>writeFile_rejects := Some (SystemError ''EACCES'', Some left)\<rparr>"



text \<open>A world whose file holds the given text, with nothing called yet.\<close>

definition world_with :: "js_string \<Rightarrow> world" where
  "world_with t = \<lparr>usuarios_json = Some t, trace = []\<rparr>"

section \<open>Auxiliary facts\<close>

subsection \<open>Trimming\<close>




subsection \<open>The text of an array\<close>





subsection \<open>The world and the lock\<close>

lemma usuarios_json_emit [simp]: "usuarios_json (emit e w) = usuarios_json w"
  by (simp add: emit_def)

lemma trace_emit [simp]: "trace (emit e w) = trace w @ [e]"
  by (simp add: emit_def)

lemma comLock_acquired:
  "lock_rejects oc = None \<Longrightarrow>
   comLock oc fn w =
     (fst (fn (emit (LockfileLock lock_options) w)),
      (case release_rejects oc of
         Some err \<Rightarrow> emit (Console Error (ErroAoLiberarLock err))
       | None \<Rightarrow> (\<lambda>w. w))
        (emit Release (snd (fn (emit (LockfileLock lock_options) w)))))"
  by (simp add: comLock_def Let_def split: prod.splits option.splits)

lemma comLock_rejected:
  "lock_rejects oc = Some err \<Longrightarrow>
   comLock oc fn w = (Inl err, emit (LockfileLock lock_options) w)"
  by (simp add: comLock_def)

lemma release_case_file [simp]:
  "usuarios_json
     ((case r of Some err \<Rightarrow> emit (Console Error (ErroAoLiberarLock err)) | None \<Rightarrow> (\<lambda>w. w)) w)
   = usuarios_json w"
  by (cases r) simp_all

lemma release_case_trace:
  "trace ((case r of Some err \<Rightarrow> emit (Console Error (ErroAoLiberarLock err)) | None \<Rightarrow> (\<lambda>w. w)) w)
   = trace w @ (case r of Some err \<Rightarrow> [Console Error (ErroAoLiberarLock err)] | None \<Rightarrow> [])"
  by (cases r) simp_all

lemma emitted_append [simp]: "trace w' = trace w @ es \<Longrightarrow> emitted w w' = es"
  by (simp add: emitted_def)

lemma readFile_ok:
  "readFile_rejects oc = None \<Longrightarrow> usuarios_json w = Some dados \<Longrightarrow>
   readFile oc w = (Inr dados, emit ReadFile w)"
  by (simp add: readFile_def)

subsection \<open>Reading\<close>

lemma limitar_array:
  "fst (limitar P num (JArr xs) w) =
     Inr (JArr (if 0 < num \<and> num \<le> int (length xs) then take (nat num) xs
                else if int (length xs) < num \<or> num = 0 then xs else []))"
  by (simp add: limitar_def num_le_length_def num_gt_length_def bindE_def js_le_def js_gt_def
      lidos_def slice_end_def)

lemma ler_fn_fst:
  "fst (ler_fn P oc num w) =
     (case fst (ler_try P oc num w) of Inl err \<Rightarrow> Inr (JArr []) | Inr v \<Rightarrow> Inr v)"
  by (simp add: ler_fn_def split: prod.splits sum.splits)

lemma lerUsuarios_fst:
  "lock_rejects oc = None \<Longrightarrow>
   fst (lerUsuarios P oc num w) =
     (case fst (ler_try P oc num (emit (LockfileLock lock_options) w)) of
        Inl err \<Rightarrow> Inr (JArr []) | Inr v \<Rightarrow> Inr v)"
  by (simp add: lerUsuarios_def comLock_acquired ler_fn_fst)

lemma ler_try_parsed:
  assumes "readFile_rejects oc = None" "usuarios_json w = Some dados" "trim dados \<noteq> []"
    and "JSON_parse P (trim dados) = Inr arr"
  shows "ler_try P oc num w = limitar P num arr (emit (Console Log Lendo) (emit ReadFile w))"
  using assms by (simp add: ler_try_def readFile_ok)





subsection \<open>Parsed values that are not arrays\<close>

text \<open>
  The values with no \<^verbatim>\<open>length\<close>: both tests on the length are false, so \<open>num = 0\<close>
  returns the value and every other \<open>num\<close> the empty array.
\<close>

lemma get_length_Undefined_iff:
  "get_length v = Inr Undefined \<longleftrightarrow>
     (\<exists>b. v = JBool b) \<or> (\<exists>n. v = JNum n) \<or>
     (\<exists>ms. v = JObj ms \<and> map_of ms length_key = None)"
  by (cases v) (auto split: option.splits)

lemma limitar_no_length:
  "get_length v = Inr Undefined \<Longrightarrow>
   fst (limitar P num v w) = Inr (if num = 0 then v else JArr [])"
  by (simp add: limitar_def num_le_length_def num_gt_length_def bindE_def js_le_def js_gt_def
      lidos_def)

text \<open>
  The other values: reading the length of \<^verbatim>\<open>null\<close> throws for every \<open>num\<close>, and a string
  is limited as an array is.
\<close>

lemma limitar_null: "fst (limitar P num JNull w) = Inl TypeError"
  by (simp add: limitar_def num_le_length_def num_gt_length_def bindE_def)

lemma limitar_string:
  "fst (limitar P num (JStr s) w) =
     (if 0 < num \<and> num \<le> int (length s) then Inr (JStr (take (nat num) s))
      else if int (length s) < num \<or> num = 0 then Inr (JStr s) else Inr (JArr []))"
  by (simp add: limitar_def num_le_length_def num_gt_length_def bindE_def js_le_def js_gt_def
      lidos_def slice_end_def)

subsection \<open>Writing\<close>

lemma salvar_fn_ok:
  "writeFile_rejects oc = None \<Longrightarrow>
   salvar_fn P oc usuarios w =
     (Inr (), emit (Console Log AtualizadoComSucesso)
                ((emit (WriteFile (JSON_stringify P usuarios 2)) w)
                   \<lparr>usuarios_json := Some (JSON_stringify P usuarios 2)\<rparr>))"
  by (simp add: salvar_fn_def salvar_try_def writeFile_def Let_def)

lemma salvar_fn_rejected:
  "writeFile_rejects oc = Some (err, left) \<Longrightarrow>
   salvar_fn P oc usuarios w =
     (Inr (), emit (Console Error (ErroAoSalvar err))
                ((emit (WriteFile (JSON_stringify P usuarios 2)) w)\<lparr>usuarios_json := left\<rparr>))"
  by (simp add: salvar_fn_def salvar_try_def writeFile_def Let_def)

lemma salvar_fn_fst: "fst (salvar_fn P oc usuarios w) = Inr ()"
  by (simp add: salvar_fn_def split: prod.splits sum.splits)

subsection \<open>The examples\<close>

lemma example_text: "JSON_stringify example_platform colecao_abc 2 = texto_abc"
  by code_simp

lemma trim_texto_abc: "trim texto_abc = texto_abc"
  by code_simp

lemma example_outcomes:
  "lock_rejects all_succeed = None" "release_rejects all_succeed = None"
  "readFile_rejects all_succeed = None" "writeFile_rejects all_succeed = None"
  by (simp_all add: all_succeed_def)

section \<open>The claims\<close>

subsection \<open>Limit selection\<close>

text \<open>
  C1. When the lock is acquired and the file is read and parses to an array of length
  \<open>L\<close>, \<open>lerUsuarios num\<close> returns the whole array when \<open>num = 0\<close>, the whole array when
  \<open>num > L\<close>, its first \<open>num\<close> elements in their order when \<open>0 < num \<le> L\<close>, and the
  empty array when \<open>num < 0\<close>.
\<close>

theorem lerUsuarios_limit_selection:
  assumes "lock_rejects oc = None" and "readFile_rejects oc = None"
    and "usuarios_json w = Some dados" and "trim dados \<noteq> []"
    and "JSON_parse P (trim dados) = Inr (JArr xs)"
  shows "(num = 0 \<longrightarrow> fst (lerUsuarios P oc num w) = Inr (JArr xs)) \<and>
         (int (length xs) < num \<longrightarrow> fst (lerUsuarios P oc num w) = Inr (JArr xs)) \<and>
         (0 < num \<and> num \<le> int (length xs) \<longrightarrow>
            fst (lerUsuarios P oc num w) = Inr (JArr (take (nat num) xs))) \<and>
         (num < 0 \<longrightarrow> fst (lerUsuarios P oc num w) = Inr (JArr []))"
proof -
  have "ler_try P oc num (emit (LockfileLock lock_options) w) =
        limitar P num (JArr xs)
          (emit (Console Log Lendo) (emit ReadFile (emit (LockfileLock lock_options) w)))"
    using assms by (intro ler_try_parsed) simp_all
  then have "fst (lerUsuarios P oc num w) =
     Inr (JArr (if 0 < num \<and> num \<le> int (length xs) then take (nat num) xs
                else if int (length xs) < num \<or> num = 0 then xs else []))"
    using assms(1) by (simp add: lerUsuarios_fst limitar_array)
  then show ?thesis by auto
qed

theorem lerUsuarios_limit_selection_witness:
  "fst (lerUsuarios example_platform all_succeed 0 (world_with texto_abc)) = Inr colecao_abc \<and>
   fst (lerUsuarios example_platform all_succeed 100 (world_with texto_abc)) = Inr colecao_abc \<and>
   fst (lerUsuarios example_platform all_succeed 2 (world_with texto_abc))
     = Inr (JArr [usuario ''a'', usuario ''b'']) \<and>
   fst (lerUsuarios example_platform all_succeed (- 1) (world_with texto_abc)) = Inr (JArr [])"
proof -
  have h3: "usuarios_json (world_with texto_abc) = Some texto_abc"
    by (simp add: world_with_def)
  have h4: "trim texto_abc \<noteq> []"
    by code_simp
  have h5: "JSON_parse example_platform (trim texto_abc)
              = Inr (JArr [usuario ''a'', usuario ''b'', usuario ''c''])"
    by (simp add: trim_texto_abc example_platform_def example_parse_def colecao_abc_def)
  note t = lerUsuarios_limit_selection [OF example_outcomes(1) example_outcomes(3) h3 h4 h5]
  from t [of 0] t [of 100] t [of 2] t [of "- 1"] show ?thesis
    by (simp add: colecao_abc_def)
qed

subsection \<open>Round trip\<close>




subsection \<open>Reading never raises once the lock is held\<close>




subsection \<open>Blank and unparseable files\<close>



subsection \<open>Writing\<close>

text \<open>
  C5. When the lock is acquired and \<^verbatim>\<open>fs.writeFile\<close> resolves, \<open>salvarUsuarios\<close> completes and
  leaves in the file exactly the text \<^verbatim>\<open>JSON.stringify(usuarios, null, 2)\<close>, whatever the
  file held before: the whole collection replaces the previous content.
\<close>

theorem salvarUsuarios_overwrites:
  assumes "lock_rejects oc = None" and "writeFile_rejects oc = None"
  shows "fst (salvarUsuarios P oc usuarios w) = Inr () \<and>
         usuarios_json (snd (salvarUsuarios P oc usuarios w)) = Some (JSON_stringify P usuarios 2)"
  using assms by (simp add: salvarUsuarios_def comLock_acquired salvar_fn_ok)

theorem salvarUsuarios_overwrites_witness:
  "fst (salvarUsuarios example_platform all_succeed colecao_abc (world_with (ascii ''null'')))
     = Inr () \<and>
   usuarios_json
     (snd (salvarUsuarios example_platform all_succeed colecao_abc (world_with (ascii ''null''))))
     = Some texto_abc"
  using salvarUsuarios_overwrites [OF example_outcomes(1) example_outcomes(4),
      of example_platform colecao_abc "world_with (ascii ''null'')"]
  by (simp add: example_text)

text \<open>
  C6. When the lock is acquired, \<open>salvarUsuarios\<close> completes normally whatever
  \<^verbatim>\<open>fs.writeFile\<close> does: a write that rejects is printed as an error, the success message
  is not printed, and nothing is raised to the caller.
\<close>

theorem salvarUsuarios_swallows_write_failure:
  assumes "lock_rejects oc = None"
  shows "fst (salvarUsuarios P oc usuarios w) = Inr () \<and>
         (\<forall>err left. writeFile_rejects oc = Some (err, left) \<longrightarrow>
            Console Error (ErroAoSalvar err)
              \<in> set (emitted w (snd (salvarUsuarios P oc usuarios w))) \<and>
            Console Log AtualizadoComSucesso
              \<notin> set (emitted w (snd (salvarUsuarios P oc usuarios w))))"
  using assms
  by (auto simp: salvarUsuarios_def comLock_acquired salvar_fn_fst salvar_fn_rejected
      emitted_def release_case_trace split: option.splits)

theorem salvarUsuarios_swallows_write_failure_witness:
  "fst (salvarUsuarios example_platform (write_denied []) colecao_abc (world_with [])) = Inr () \<and>
   Console Error (ErroAoSalvar (SystemError ''EACCES''))
     \<in> set (emitted (world_with [])
          (snd (salvarUsuarios example_platform (write_denied []) colecao_abc (world_with []))))"
proof -
  have h: "lock_rejects (write_denied []) = None"
    and w: "writeFile_rejects (write_denied []) = Some (SystemError ''EACCES'', Some [])"
    by (simp_all add: write_denied_def all_succeed_def)
  from salvarUsuarios_swallows_write_failure
         [OF h, of example_platform colecao_abc "world_with []"] w
  show ?thesis by simp
qed

subsection \<open>The lock\<close>

text \<open>
  C7. When \<^verbatim>\<open>lockfile.lock\<close> rejects (its retries exhausted), \<open>comLock\<close> fails with that
  error and the wrapped function is not run: the outcome is the same for every function,
  the file is unchanged and the only call made is the one to the lock. So \<open>lerUsuarios\<close>
  and \<open>salvarUsuarios\<close> fail with the error without reading or writing the file.
\<close>

theorem comLock_lock_rejected:
  assumes "lock_rejects oc = Some err"
  shows "fst (comLock oc fn w) = Inl err \<and>
         comLock oc fn' w = comLock oc fn w \<and>
         usuarios_json (snd (comLock oc fn w)) = usuarios_json w \<and>
         emitted w (snd (comLock oc fn w)) = [LockfileLock lock_options] \<and>
         fst (lerUsuarios P oc num w) = Inl err \<and>
         emitted w (snd (lerUsuarios P oc num w)) = [LockfileLock lock_options] \<and>
         fst (salvarUsuarios P oc usuarios w) = Inl err \<and>
         emitted w (snd (salvarUsuarios P oc usuarios w)) = [LockfileLock lock_options]"
  using assms by (simp add: comLock_rejected lerUsuarios_def salvarUsuarios_def)

theorem comLock_lock_rejected_witness:
  "fst (comLock lock_busy (ler_fn example_platform lock_busy 0) (world_with texto_abc))
     = Inl (SystemError ''ELOCKED'') \<and>
   snd (comLock lock_busy (ler_fn example_platform lock_busy 0) (world_with texto_abc))
     = \<lparr>usuarios_json = Some texto_abc, trace = [LockfileLock lock_options]\<rparr>"
proof -
  have h: "lock_rejects lock_busy = Some (SystemError ''ELOCKED'')"
    by (simp add: lock_busy_def)
  from comLock_lock_rejected
         [OF h, of "ler_fn example_platform lock_busy 0" "world_with texto_abc"]
  show ?thesis
    by (cases "snd (comLock lock_busy (ler_fn example_platform lock_busy 0) (world_with texto_abc))")
       (simp add: world_with_def emitted_def)
qed

text \<open>
  C8. When the lock is acquired, \<open>comLock\<close> runs the wrapped function and then calls
  \<open>release\<close> exactly once, whether the function returned or threw. A release that rejects
  is printed, and changes neither what the caller gets (the result, or the error, of the
  wrapped function) nor the file.
\<close>

theorem comLock_releases_once:
  assumes "lock_rejects oc = None"
  shows "fst (comLock oc fn w) = fst (fn (emit (LockfileLock lock_options) w)) \<and>
         usuarios_json (snd (comLock oc fn w))
           = usuarios_json (snd (fn (emit (LockfileLock lock_options) w))) \<and>
         count_list (emitted (snd (fn (emit (LockfileLock lock_options) w)))
                             (snd (comLock oc fn w))) Release = 1 \<and>
         emitted (snd (fn (emit (LockfileLock lock_options) w))) (snd (comLock oc fn w))
           = Release # (case release_rejects oc of
                          Some err \<Rightarrow> [Console Error (ErroAoLiberarLock err)]
                        | None \<Rightarrow> [])"
  using assms
  by (simp add: comLock_acquired emitted_def release_case_trace split: option.splits)

theorem comLock_releases_once_witness:
  "fst (comLock release_fails (\<lambda>w. (Inl TypeError :: js_error + json, emit ReadFile w))
          (world_with texto_abc))
     = Inl TypeError \<and>
   trace (snd (comLock release_fails (\<lambda>w. (Inl TypeError :: js_error + json, emit ReadFile w))
                 (world_with texto_abc)))
     = [LockfileLock lock_options, ReadFile, Release,
        Console Error (ErroAoLiberarLock (SystemError ''ERELEASED''))]"
proof -
  have h: "lock_rejects release_fails = None"
    and r: "release_rejects release_fails = Some (SystemError ''ERELEASED'')"
    by (simp_all add: release_fails_def all_succeed_def)
  from comLock_releases_once [OF h,
      of "\<lambda>w. (Inl TypeError :: js_error + json, emit ReadFile w)" "world_with texto_abc"] r
  show ?thesis
    by (simp add: emitted_def world_with_def comLock_acquired [OF h] release_case_trace)
qed

subsection \<open>A file that parses to a value that is not an array\<close>

text \<open>
  C10, as amended. With the lock acquired and the file read: when the content parses to a
  value that has no \<^verbatim>\<open>length\<close> (a boolean, a number, or an object with no member of that
  name), \<open>lerUsuarios 0\<close> returns that value unchanged and \<open>lerUsuarios num\<close> returns the
  empty array for every other \<open>num\<close>.
\<close>

theorem lerUsuarios_value_without_length:
  assumes "lock_rejects oc = None" and "readFile_rejects oc = None"
    and "usuarios_json w = Some dados" and "trim dados \<noteq> []"
    and "JSON_parse P (trim dados) = Inr v" and "get_length v = Inr Undefined"
  shows "(num = 0 \<longrightarrow> fst (lerUsuarios P oc num w) = Inr v) \<and>
         (num \<noteq> 0 \<longrightarrow> fst (lerUsuarios P oc num w) = Inr (JArr []))"
proof -
  have "ler_try P oc num (emit (LockfileLock lock_options) w) =
        limitar P num v
          (emit (Console Log Lendo) (emit ReadFile (emit (LockfileLock lock_options) w)))"
    using assms by (intro ler_try_parsed) simp_all
  then have "fst (lerUsuarios P oc num w) = Inr (if num = 0 then v else JArr [])"
    using assms(1,6) by (simp add: lerUsuarios_fst limitar_no_length)
  then show ?thesis by (cases "num = 0") simp_all
qed

theorem lerUsuarios_value_without_length_witness:
  "JSON_parse example_platform (trim (ascii ''{}'')) = Inr (JObj []) \<and>
   get_length (JObj []) = Inr Undefined \<and>
   fst (lerUsuarios example_platform all_succeed 0 (world_with (ascii ''{}''))) = Inr (JObj []) \<and>
   fst (lerUsuarios example_platform all_succeed 2 (world_with (ascii ''{}''))) = Inr (JArr [])"
proof -
  have t: "trim (ascii ''{}'') \<noteq> []"
    by code_simp
  have p: "JSON_parse example_platform (trim (ascii ''{}'')) = Inr (JObj [])"
    by code_simp
  have g: "get_length (JObj []) = Inr Undefined"
    by simp
  have f: "usuarios_json (world_with (ascii ''{}'')) = Some (ascii ''{}'')"
    by (simp add: world_with_def)
  note r = lerUsuarios_value_without_length [OF example_outcomes(1) example_outcomes(3) f t p g]
  from r [of 0] r [of 2] p g show ?thesis by simp
qed

text \<open>
  The claim as stated fails on \<^verbatim>\<open>null\<close>: the file parses, reading \<^verbatim>\<open>arr.length\<close> throws, the
  \<^verbatim>\<open>catch\<close> block returns the empty array, and so does \<open>lerUsuarios 0\<close>.
\<close>

theorem lerUsuarios_null_counterexample:
  "JSON_parse example_platform (trim (ascii ''null'')) = Inr JNull \<and>
   fst (lerUsuarios example_platform all_succeed 0 (world_with (ascii ''null''))) = Inr (JArr [])"
  by code_simp

end
